theory Spec2Isabelle
  imports Complex_Main "HOL-Library.AList" "HOL-Library.Sublist"
    "HOL-Library.Char_ord" "HOL-Library.List_Lexorder"
begin

section \<open>Partner recommender: model manager, similarity fallback, recommendation engine\<close>

text \<open>
  A shallow embedding of \<^verbatim>\<open>services/partner-recommender/src\<close>:
  \<^verbatim>\<open>config.py\<close>, \<^verbatim>\<open>model_manager.py\<close>, \<^verbatim>\<open>feature_client.py\<close> and
  \<^verbatim>\<open>inference_engine.py\<close>.

  Conventions of the embedding.
  \<^item> Python floats (and the JSON numbers of a feature record) are modelled as \<^typ>\<open>real\<close>:
    the formulas are the source's, rounding is not modelled.
  \<^item> A Python exception is a value \<open>Inl e\<close> of a sum type; a handler is a case split.
  \<^item> \<^verbatim>\<open>async\<close> functions are modelled by their sequential result;
    \<^verbatim>\<open>asyncio.gather\<close> keeps the order of its tasks.
  \<^item> What the external services answer (feature store, model artifact on disk, clock)
    is an explicit input of the model.
\<close>

subsection \<open>Exceptions\<close>

datatype error =
    ValueError string
  | LoadError string
  | RuntimeError string
  | AttributeError string
  | ResponseError string
  | ConnectionError string

subsection \<open>config.py\<close>

text \<open>
  The fields of \<^verbatim>\<open>Config\<close> that the modelled code reads. Each one is
  \<^verbatim>\<open>conv(os.getenv(NAME, default))\<close>; \<open>os_environ\<close> holds the converted value of a
  variable that is set, and \<open>None\<close> for one that is not.
\<close>

record os_environ =
  MODEL_VERSION :: "string option"
  SIMILARITY_THRESHOLD :: "real option"
  CACHE_TTL_SECONDS :: "int option"

record config =
  cfg_model_version :: string
  similarity_threshold :: real
  cache_ttl_seconds :: int

definition getenv :: "'a option \<Rightarrow> 'a \<Rightarrow> 'a" where
  "getenv var dflt = (case var of None \<Rightarrow> dflt | Some v \<Rightarrow> v)"

definition Config :: "os_environ \<Rightarrow> config" where
  "Config environ =
     \<lparr> cfg_model_version = getenv (MODEL_VERSION environ) ''v1.0.0'',
       similarity_threshold = getenv (SIMILARITY_THRESHOLD environ) (1 / 10),
       cache_ttl_seconds = getenv (CACHE_TTL_SECONDS environ) 3600 \<rparr>"

definition no_environ :: os_environ where
  "no_environ = \<lparr> MODEL_VERSION = None, SIMILARITY_THRESHOLD = None, CACHE_TTL_SECONDS = None \<rparr>"

subsection \<open>model\_manager.py\<close>

text \<open>
  The two-tower input assembled by \<^verbatim>\<open>_calculate_match_score\<close>, and the inference
  session: a HugeCTR session is a black box, modelled by what its \<^verbatim>\<open>predict\<close>
  answers (a float, or an exception).
\<close>

record model_input =
  dense :: "real list"
  sparse_a :: "int list"
  sparse_b :: "int list"

type_synonym hugectr_model = "model_input \<Rightarrow> error + real"

record model_manager =
  model :: "hugectr_model option"
  model_loaded :: bool
  model_version :: string

text \<open>\<^verbatim>\<open>ModelManager.__init__\<close>.\<close>

definition ModelManager :: "config \<Rightarrow> model_manager" where
  "ModelManager cfg = \<lparr> model = None, model_loaded = False, model_version = cfg_model_version cfg \<rparr>"

text \<open>
  \<^verbatim>\<open>load_model\<close>. The argument \<open>artifact\<close> is what
  \<^verbatim>\<open>hugectr.inference.CreateInferenceSession\<close> does with the files on disk: it returns a
  session or raises. The result is the outcome (\<open>Inl e\<close>: the exception is re-raised) and the
  manager after the call.
\<close>

definition load_model :: "error + hugectr_model \<Rightarrow> model_manager \<Rightarrow> (error + unit) \<times> model_manager" where
  "load_model artifact mm =
     (case artifact of
        Inr session \<Rightarrow> (Inr (), mm\<lparr> model := Some session, model_loaded := True \<rparr>)
      | Inl e \<Rightarrow> (Inl e, mm\<lparr> model_loaded := False \<rparr>))"

text \<open>
  \<^verbatim>\<open>reload_model\<close>: the existing model is dropped first, then \<^verbatim>\<open>load_model\<close> runs;
  its exception is logged and re-raised.
\<close>

definition reload_model :: "error + hugectr_model \<Rightarrow> model_manager \<Rightarrow> (error + unit) \<times> model_manager" where
  "reload_model artifact mm =
     (let mm1 = (if model mm \<noteq> None then mm\<lparr> model := None, model_loaded := False \<rparr> else mm)
      in load_model artifact mm1)"

text \<open>\<^verbatim>\<open>get_model_status\<close>: the fields the callers read.\<close>

record model_status =
  loaded :: bool
  version :: string
  gpu_available :: bool

definition get_model_status :: "bool \<Rightarrow> model_manager \<Rightarrow> model_status" where
  "get_model_status gpu mm = \<lparr> loaded = model_loaded mm, version = model_version mm, gpu_available = gpu \<rparr>"

text \<open>
  \<^verbatim>\<open>predict\<close>: raises \<^verbatim>\<open>ValueError("Model not loaded")\<close> unless a model is loaded; any
  exception of the session is logged and re-raised. With \<open>model_loaded\<close> set and no session
  (\<open>self.model is None\<close>) the call \<^verbatim>\<open>self.model.predict\<close> raises.
\<close>

definition predict :: "model_manager \<Rightarrow> model_input \<Rightarrow> error + real" where
  "predict mm features =
     (if \<not> model_loaded mm then Inl (ValueError ''Model not loaded'')
      else (case model mm of
              None \<Rightarrow> Inl (RuntimeError ''NoneType has no attribute predict'')
            | Some session \<Rightarrow> session features))"

subsection \<open>Feature records\<close>

text \<open>
  A feature record is a JSON object; a key that is absent is \<open>None\<close>
  (\<^verbatim>\<open>d.get(key, default)\<close> is \<open>dict_get\<close>).
\<close>

definition dict_get :: "'a option \<Rightarrow> 'a \<Rightarrow> 'a" where
  "dict_get entry dflt = (case entry of None \<Rightarrow> dflt | Some v \<Rightarrow> v)"

record traction =
  funding_amount :: "real option"
  employee_count :: "real option"
  growth_rate :: "real option"
  market_sentiment :: "real option"

record company_features =
  feat_company_id :: "string option"
  user_overlap_score :: "real option"
  traction_metrics :: "traction option"
  culture_vector :: "real list option"

text \<open>The default \<^verbatim>\<open>{}\<close> of \<^verbatim>\<open>features.get("traction_metrics", {})\<close>.\<close>

definition empty_traction :: traction where
  "empty_traction = \<lparr> funding_amount = None, employee_count = None,
                       growth_rate = None, market_sentiment = None \<rparr>"

subsection \<open>feature\_client.py\<close>

text \<open>
  What the feature store answers to a request: a status code with a body, or a transport
  failure (the exception every method of the client catches). The body of
  \<^verbatim>\<open>/features/company/{id}\<close> is a JSON object: \<open>None\<close> is the empty object
  \<^verbatim>\<open>{}\<close>, which Python takes as false.
\<close>

datatype 'a http_result = Response nat 'a | TransportError

record feature_client =
  post_features_company :: "string \<Rightarrow> company_features option http_result"
  post_features_online :: "string list \<Rightarrow> company_features list http_result"
  get_features_stats :: "unit http_result"

definition get_company_features :: "feature_client \<Rightarrow> string \<Rightarrow> company_features option" where
  "get_company_features fc company_id =
     (case post_features_company fc company_id of
        Response code body \<Rightarrow> (if code = 200 then body else None)
      | TransportError \<Rightarrow> None)"

text \<open>
  \<^verbatim>\<open>get_batch_features\<close>: the answer's features are keyed by their own
  \<^verbatim>\<open>company_id\<close>; a feature whose id is missing or empty is left out.
\<close>

definition features_map_insert ::
  "company_features \<Rightarrow> (string \<rightharpoonup> company_features) \<Rightarrow> (string \<rightharpoonup> company_features)" where
  "features_map_insert feature features_map =
     (case feat_company_id feature of
        None \<Rightarrow> features_map
      | Some cid \<Rightarrow> (if cid \<noteq> [] then features_map(cid \<mapsto> feature) else features_map))"

definition get_batch_features :: "feature_client \<Rightarrow> string list \<Rightarrow> (string \<rightharpoonup> company_features)" where
  "get_batch_features fc company_ids =
     (case post_features_online fc company_ids of
        Response code features \<Rightarrow>
          (if code = 200 then fold features_map_insert features Map.empty else Map.empty)
      | TransportError \<Rightarrow> Map.empty)"

definition mock_companies :: "string list" where
  "mock_companies =
     [''TechFlow AI'', ''GreenStart Solutions'', ''DataViz Pro'',
      ''CloudScale Systems'', ''AI Innovations'', ''FinTech Plus'',
      ''HealthTech Solutions'', ''EduTech Platform'', ''RetailBot'',
      ''LogiChain'', ''CyberGuard'', ''SmartCity Tech'']"

definition get_all_companies :: "feature_client \<Rightarrow> string list" where
  "get_all_companies fc =
     (case get_features_stats fc of
        Response code body \<Rightarrow> (if code = 200 then mock_companies else [])
      | TransportError \<Rightarrow> [])"

text \<open>
  \<^verbatim>\<open>_prepare_features_for_model\<close>. Python's \<^verbatim>\<open>hash\<close> of a string is seeded per
  process, so it is a parameter.
\<close>

record prepared_features =
  prep_dense :: "real list"
  prep_sparse :: "int list"
  prep_culture_vector :: "real list"

definition prepare_features_for_model :: "(string \<Rightarrow> int) \<Rightarrow> company_features \<Rightarrow> prepared_features" where
  "prepare_features_for_model py_hash features =
     (let tm = dict_get (traction_metrics features) empty_traction;
          dense_features =
            [dict_get (user_overlap_score features) 0,
             dict_get (funding_amount tm) 0 / 1000000,
             dict_get (employee_count tm) 0 / 1000,
             dict_get (growth_rate tm) 0 / 100,
             dict_get (market_sentiment tm) 0];
          padded = dense_features @ replicate (13 - length dense_features) 0;
          company_hash = py_hash (dict_get (feat_company_id features) []) mod 100000
      in \<lparr> prep_dense = padded,
           prep_sparse = company_hash # replicate 25 0,
           prep_culture_vector = dict_get (culture_vector features) (replicate 128 0) \<rparr>)"

subsection \<open>inference\_engine.py: scores\<close>

text \<open>\<^verbatim>\<open>np.linalg.norm\<close> of a vector, and the dot product.\<close>

definition linalg_norm :: "real list \<Rightarrow> real" where
  "linalg_norm v = sqrt (sum_list (map (\<lambda>x. x * x) v))"

definition dot :: "real list \<Rightarrow> real list \<Rightarrow> real" where
  "dot u v = sum_list (map (\<lambda>(x, y). x * y) (zip u v))"

text \<open>
  \<^verbatim>\<open>sklearn.metrics.pairwise.cosine_similarity([u], [v])[0][0]\<close>. Vectors of different
  lengths are refused with a \<^verbatim>\<open>ValueError\<close>. Otherwise each vector is L2-normalised and
  the result is the dot product of the two normalised vectors. The normalisation divides by
  the norm, except that a norm below \<^verbatim>\<open>10 * np.finfo(float64).eps\<close> (\<open>eps\<close> is \<open>1 / 2 ^ 52\<close>) is
  replaced by 1: such a vector is left as it is.
\<close>

definition tiny_norm :: real where
  "tiny_norm = 10 / 2 ^ 52"

definition row_scale :: "real list \<Rightarrow> real" where
  "row_scale u = (if linalg_norm u < tiny_norm then 1 else linalg_norm u)"

definition normalize :: "real list \<Rightarrow> real list" where
  "normalize u = map (\<lambda>x. x / row_scale u) u"

definition cosine_similarity :: "real list \<Rightarrow> real list \<Rightarrow> error + real" where
  "cosine_similarity u v =
     (if length u \<noteq> length v then Inl (ValueError ''Incompatible dimension for X and Y matrices'')
      else Inr (dot (normalize u) (normalize v)))"

record engine =
  model_manager :: model_manager
  feature_client :: feature_client
  config :: config
  py_hash :: "string \<Rightarrow> int"
  utcnow :: "string \<Rightarrow> nat \<Rightarrow> string"

text \<open>
  \<open>utcnow eng q n\<close> is the clock reading \<^verbatim>\<open>datetime.utcnow().isoformat()\<close> taken for the
  \<open>n\<close>-th recommendation built by the call for query \<open>q\<close>.
\<close>

text \<open>
  The \<^verbatim>\<open>else\<close> branch of \<^verbatim>\<open>_calculate_match_score\<close> (no model loaded), on the two
  culture vectors. The exception of \<^verbatim>\<open>cosine_similarity\<close> is caught by the handler of
  \<^verbatim>\<open>_calculate_match_score\<close>, which returns \<^verbatim>\<open>0.0\<close>.
\<close>

definition similarity_fallback :: "real list \<Rightarrow> real list \<Rightarrow> real" where
  "similarity_fallback query_vector candidate_vector =
     (if linalg_norm query_vector = 0 \<or> linalg_norm candidate_vector = 0 then 0
      else (case cosine_similarity query_vector candidate_vector of
              Inl e \<Rightarrow> 0
            | Inr similarity \<Rightarrow> max 0 (min 1 similarity)))"

definition calculate_match_score :: "engine \<Rightarrow> company_features \<Rightarrow> company_features \<Rightarrow> real" where
  "calculate_match_score eng query_features candidate_features =
     (if model_loaded (model_manager eng) then
        (let query_model_features = prepare_features_for_model (py_hash eng) query_features;
             candidate_model_features = prepare_features_for_model (py_hash eng) candidate_features;
             combined_features =
               \<lparr> dense = prep_dense query_model_features @ prep_dense candidate_model_features,
                 sparse_a = prep_sparse query_model_features,
                 sparse_b = prep_sparse candidate_model_features \<rparr>
         in (case predict (model_manager eng) combined_features of
               Inr score \<Rightarrow> score
             | Inl e \<Rightarrow> 0))
      else similarity_fallback
             (dict_get (culture_vector query_features) (replicate 128 0))
             (dict_get (culture_vector candidate_features) (replicate 128 0)))"

record compatibility =
  funding_stage_alignment :: real
  company_size_alignment :: real
  growth_trajectory_alignment :: real
  market_sentiment_alignment :: real

text \<open>
  \<^verbatim>\<open>_calculate_compatibility_factors\<close>. Every denominator is at least 1 and every key has
  a default, so the handler (all four scores \<^verbatim>\<open>0.0\<close>) is not reached on feature records.
\<close>

definition calculate_compatibility_factors :: "company_features \<Rightarrow> company_features \<Rightarrow> compatibility" where
  "calculate_compatibility_factors query_features candidate_features =
     (let query_traction = dict_get (traction_metrics query_features) empty_traction;
          candidate_traction = dict_get (traction_metrics candidate_features) empty_traction;
          query_funding = dict_get (funding_amount query_traction) 0;
          candidate_funding = dict_get (funding_amount candidate_traction) 0;
          funding_ratio = min query_funding candidate_funding
                          / max (max query_funding candidate_funding) 1;
          funding_compatibility = funding_ratio * (8 / 10) + 2 / 10;
          query_employees = dict_get (employee_count query_traction) 0;
          candidate_employees = dict_get (employee_count candidate_traction) 0;
          employee_ratio = min query_employees candidate_employees
                           / max (max query_employees candidate_employees) 1;
          employee_compatibility = employee_ratio * (7 / 10) + 3 / 10;
          query_growth = dict_get (growth_rate query_traction) 0;
          candidate_growth = dict_get (growth_rate candidate_traction) 0;
          growth_diff = \<bar>query_growth - candidate_growth\<bar> / 100;
          growth_compatibility = max 0 (1 - growth_diff);
          query_sentiment = dict_get (market_sentiment query_traction) 0;
          candidate_sentiment = dict_get (market_sentiment candidate_traction) 0;
          sentiment_diff = \<bar>query_sentiment - candidate_sentiment\<bar>;
          sentiment_compatibility = max 0 (1 - sentiment_diff)
      in \<lparr> funding_stage_alignment = funding_compatibility,
           company_size_alignment = employee_compatibility,
           growth_trajectory_alignment = growth_compatibility,
           market_sentiment_alignment = sentiment_compatibility \<rparr>)"

text \<open>\<^verbatim>\<open>_calculate_timing_score\<close>.\<close>

definition calculate_timing_score :: "company_features \<Rightarrow> real" where
  "calculate_timing_score candidate_features =
     (let traction = dict_get (traction_metrics candidate_features) empty_traction;
          sentiment_score = (dict_get (market_sentiment traction) 0 + 1) / 2;
          growth_rate = dict_get (growth_rate traction) 0;
          growth_score = min 1 (max 0 (growth_rate / 50));
          timing_score = sentiment_score * (6 / 10) + growth_score * (4 / 10)
      in timing_score)"

text \<open>\<^verbatim>\<open>_calculate_behavioral_alignment\<close>; its handler returns \<^verbatim>\<open>0.5\<close>.\<close>

definition calculate_behavioral_alignment :: "company_features \<Rightarrow> company_features \<Rightarrow> real" where
  "calculate_behavioral_alignment query_features candidate_features =
     (let query_vector = dict_get (culture_vector query_features) (replicate 128 0);
          candidate_vector = dict_get (culture_vector candidate_features) (replicate 128 0)
      in if linalg_norm query_vector = 0 \<or> linalg_norm candidate_vector = 0 then 1 / 2
         else (case cosine_similarity query_vector candidate_vector of
                 Inl e \<Rightarrow> 1 / 2
               | Inr similarity \<Rightarrow> (similarity + 1) / 2))"

text \<open>\<^verbatim>\<open>_apply_filters\<close>: "For now, return all candidates".\<close>

type_synonym filters = "(string \<times> string) list"

definition apply_filters :: "string list \<Rightarrow> filters \<Rightarrow> string list" where
  "apply_filters candidate_companies flt = candidate_companies"

subsection \<open>inference\_engine.py: recommendations\<close>

record reasoning_dict =
  compatibility_factors :: compatibility
  timing_score :: real
  behavioral_alignment :: real

record metadata_dict =
  query_company :: string
  timestamp :: string

record recommendation =
  company_id :: string
  company_name :: string
  match_score :: real
  confidence :: real
  reasoning :: reasoning_dict
  metadata :: metadata_dict

text \<open>The dictionary built for a candidate that passed the threshold.\<close>

definition make_recommendation ::
  "engine \<Rightarrow> string \<Rightarrow> company_features \<Rightarrow> string \<Rightarrow> company_features \<Rightarrow> real \<Rightarrow> nat \<Rightarrow> recommendation" where
  "make_recommendation eng query_id query_features candidate_id candidate_features score n =
     \<lparr> company_id = candidate_id,
       company_name = candidate_id,
       match_score = score,
       confidence = min (score * (11 / 10)) 1,
       reasoning =
         \<lparr> compatibility_factors = calculate_compatibility_factors query_features candidate_features,
           timing_score = calculate_timing_score candidate_features,
           behavioral_alignment = calculate_behavioral_alignment query_features candidate_features \<rparr>,
       metadata = \<lparr> query_company = query_id, timestamp = utcnow eng query_id n \<rparr> \<rparr>"

text \<open>
  The loop over the candidates of \<^verbatim>\<open>get_recommendations\<close>, with the list
  \<^verbatim>\<open>recommendations\<close> built so far. A candidate with no features is skipped; one whose
  score reaches the threshold is appended. None of the functions called in the loop body
  raises (each has a handler of its own), so the loop's handler is not reached.
\<close>

fun score_candidates ::
  "engine \<Rightarrow> string \<Rightarrow> company_features \<Rightarrow> (string \<rightharpoonup> company_features) \<Rightarrow> string list
     \<Rightarrow> recommendation list \<Rightarrow> recommendation list" where
  "score_candidates eng query_id query_features candidate_features [] recommendations = recommendations"
| "score_candidates eng query_id query_features candidate_features (candidate_id # rest) recommendations =
     (case candidate_features candidate_id of
        None \<Rightarrow> score_candidates eng query_id query_features candidate_features rest recommendations
      | Some features \<Rightarrow>
          (let score = calculate_match_score eng query_features features
           in if score \<ge> similarity_threshold (config eng)
              then score_candidates eng query_id query_features candidate_features rest
                     (recommendations @
                        [make_recommendation eng query_id query_features candidate_id features score
                           (length recommendations)])
              else score_candidates eng query_id query_features candidate_features rest recommendations))"

text \<open>
  \<^verbatim>\<open>xs.sort(key=f, reverse=True)\<close>: CPython reverses the list, sorts it stably in
  ascending order of the key, and reverses the result, so that equal keys keep their order.
\<close>

definition sort_reverse :: "('a \<Rightarrow> 'k::linorder) \<Rightarrow> 'a list \<Rightarrow> 'a list" where
  "sort_reverse f xs = rev (sort_key f (rev xs))"

text \<open>The slice \<^verbatim>\<open>xs[:k]\<close>: a negative \<open>k\<close> counts from the end.\<close>

definition slice_to :: "'a list \<Rightarrow> int \<Rightarrow> 'a list" where
  "slice_to xs k = (if k \<ge> 0 then take (nat k) xs else take (nat (int (length xs) + k)) xs)"

text \<open>
  \<^verbatim>\<open>get_recommendations\<close>. \<open>filters = None\<close> is Python's \<^verbatim>\<open>None\<close>; an empty dictionary
  is false as well. The outer handler re-raises, so the result is a sum; no step of the body
  raises.
\<close>

definition get_recommendations ::
  "engine \<Rightarrow> string \<Rightarrow> int \<Rightarrow> filters option \<Rightarrow> bool \<Rightarrow> error + recommendation list" where
  "get_recommendations eng query_id top_k flt include_scores =
     (case get_company_features (feature_client eng) query_id of
        None \<Rightarrow> Inr []
      | Some query_features \<Rightarrow>
          (let all_companies = get_all_companies (feature_client eng);
               without_query = filter (\<lambda>c. c \<noteq> query_id) all_companies;
               candidate_companies =
                 (case flt of
                    None \<Rightarrow> without_query
                  | Some f \<Rightarrow> (if f \<noteq> [] then apply_filters without_query f else without_query));
               candidate_features = get_batch_features (feature_client eng) candidate_companies;
               recommendations =
                 score_candidates eng query_id query_features candidate_features candidate_companies []
           in Inr (slice_to (sort_reverse match_score recommendations) top_k)))"

subsection \<open>inference\_engine.py: batches\<close>

text \<open>
  \<^verbatim>\<open>process_company\<close> of \<^verbatim>\<open>get_batch_recommendations\<close>, over the per-query operation
  \<open>recommend\<close> (\<^verbatim>\<open>self.get_recommendations\<close>): an exception gives the empty list.
\<close>

definition process_company ::
  "(string \<Rightarrow> int \<Rightarrow> error + recommendation list) \<Rightarrow> int \<Rightarrow> string \<Rightarrow> string \<times> recommendation list" where
  "process_company recommend top_k cid =
     (case recommend cid top_k of
        Inr recommendations \<Rightarrow> (cid, recommendations)
      | Inl e \<Rightarrow> (cid, []))"

text \<open>
  The collecting loop: \<^verbatim>\<open>gather(..., return_exceptions=True)\<close> gives one result per task,
  in order; a result that is an exception is skipped, a pair is stored in the dictionary
  (an association list in insertion order, \<open>AList.update\<close> being \<^verbatim>\<open>d[k] = v\<close>).
\<close>

definition collect_result ::
  "error + string \<times> recommendation list \<Rightarrow> (string \<times> recommendation list) list
     \<Rightarrow> (string \<times> recommendation list) list" where
  "collect_result result batch_results =
     (case result of
        Inl e \<Rightarrow> batch_results
      | Inr (cid, recommendations) \<Rightarrow> AList.update cid recommendations batch_results)"

definition batch_with ::
  "(string \<Rightarrow> int \<Rightarrow> error + recommendation list) \<Rightarrow> string list \<Rightarrow> int
     \<Rightarrow> error + (string \<times> recommendation list) list" where
  "batch_with recommend company_ids top_k =
     (let results = map (\<lambda>cid. Inr (process_company recommend top_k cid)) company_ids
      in Inr (fold collect_result results []))"

text \<open>\<^verbatim>\<open>get_batch_recommendations\<close>: each query is \<^verbatim>\<open>get_recommendations(company_id, top_k)\<close>.\<close>

definition get_batch_recommendations ::
  "engine \<Rightarrow> string list \<Rightarrow> int \<Rightarrow> error + (string \<times> recommendation list) list" where
  "get_batch_recommendations eng company_ids top_k =
     batch_with (\<lambda>cid k. get_recommendations eng cid k None True) company_ids top_k"

text \<open>
  The result cache behind \<^verbatim>\<open>self.redis_client\<close>: the entries it holds, each with its time
  to live, and what the server or the connection does with a write. \<open>write_error key\<close> is the
  exception a write to \<open>key\<close> raises (connection lost, server refusing), \<open>None\<close> when the
  write goes through; a run writes each key at most once, so this covers any failure during
  the run. The stored value is \<^verbatim>\<open>json.dumps(recommendations, default=str)\<close>, represented
  by the list it serialises.
\<close>

record redis =
  entries :: "string \<rightharpoonup> int \<times> recommendation list"
  write_error :: "string \<Rightarrow> error option"

text \<open>
  \<^verbatim>\<open>setex(key, ttl, value)\<close>: Redis refuses a time to live that is not positive
  (\<^verbatim>\<open>invalid expire time\<close>); otherwise the value is stored with its time to live.
\<close>

definition setex :: "redis \<Rightarrow> string \<Rightarrow> int \<Rightarrow> recommendation list \<Rightarrow> error + redis" where
  "setex client key ttl v =
     (case write_error client key of
        Some e \<Rightarrow> Inl e
      | None \<Rightarrow>
          (if ttl \<le> 0 then Inl (ResponseError ''invalid expire time in setex'')
           else Inr (client\<lparr> entries := (entries client)(key \<mapsto> (ttl, v)) \<rparr>)))"

definition cache_key :: "string \<Rightarrow> string" where
  "cache_key cid = ''batch_recommendations:'' @ cid"

text \<open>
  The storing loop of \<^verbatim>\<open>process_batch_recommendations\<close> over \<^verbatim>\<open>results.items()\<close>: the
  first write that raises ends the loop, and the entries written before it stay. The result
  is the outcome (\<open>Inl e\<close>: the exception that reaches the handler) and the cache.
\<close>

fun store_results ::
  "int \<Rightarrow> (string \<times> recommendation list) list \<Rightarrow> redis \<Rightarrow> (error + unit) \<times> redis" where
  "store_results ttl [] client = (Inr (), client)"
| "store_results ttl ((cid, recommendations) # rest) client =
     (case setex client (cache_key cid) ttl recommendations of
        Inl e \<Rightarrow> (Inl e, client)
      | Inr client' \<Rightarrow> store_results ttl rest client')"

text \<open>
  \<^verbatim>\<open>process_batch_recommendations\<close>. \<open>redis_client = None\<close> is a client that was never
  initialised: the first \<^verbatim>\<open>setex\<close> raises \<^verbatim>\<open>AttributeError\<close>. The function returns
  nothing; every exception is caught and logged. The first component of the result is what
  it logs at the end, \<open>Inr ()\<close> for "Background batch processing completed" and \<open>Inl e\<close> for
  "Background batch processing failed"; the second is the cache after the call.
\<close>

definition process_batch_recommendations ::
  "engine \<Rightarrow> string list \<Rightarrow> int \<Rightarrow> redis option \<Rightarrow> (error + unit) \<times> redis option" where
  "process_batch_recommendations eng company_ids top_k redis_client =
     (case get_batch_recommendations eng company_ids top_k of
        Inl e \<Rightarrow> (Inl e, redis_client)
      | Inr results \<Rightarrow>
          (case redis_client of
             None \<Rightarrow>
               (if results = [] then (Inr (), None)
                else (Inl (AttributeError ''NoneType has no attribute setex''), None))
           | Some client \<Rightarrow>
               (case store_results (cache_ttl_seconds (config eng)) results client of
                  (outcome, client') \<Rightarrow> (outcome, Some client'))))"

subsection \<open>A concrete deployment\<close>

text \<open>
  The engine used for the concrete runs below: configuration from an empty environment
  (threshold \<open>0.1\<close>, time to live \<open>3600\<close>), no model on disk, and a feature store that knows
  the twelve listed companies, each with the 128-dimensional culture vector
  \<open>[1, 0, \<dots>, 0]\<close>, and answers 404 for any other id.
\<close>

definition example_features :: "string \<Rightarrow> company_features" where
  "example_features cid =
     \<lparr> feat_company_id = Some cid,
       user_overlap_score = Some (1 / 2),
       traction_metrics = Some \<lparr> funding_amount = Some 1000000, employee_count = Some 50,
                                 growth_rate = Some 25, market_sentiment = Some 0 \<rparr>,
       culture_vector = Some (1 # replicate 127 0) \<rparr>"

definition example_client :: feature_client where
  "example_client =
     \<lparr> post_features_company =
         (\<lambda>cid. if cid \<in> set mock_companies then Response 200 (Some (example_features cid))
                else Response 404 None),
       post_features_online =
         (\<lambda>ids. Response 200 (map example_features (filter (\<lambda>c. c \<in> set mock_companies) ids))),
       get_features_stats = Response 200 () \<rparr>"

definition example_engine :: engine where
  "example_engine =
     \<lparr> model_manager = ModelManager (Config no_environ),
       feature_client = example_client,
       config = Config no_environ,
       py_hash = (\<lambda>s. int (length s)),
       utcnow = (\<lambda>q n. ''2024-01-01T00:00:00'') \<rparr>"

text \<open>A loaded model manager whose session answers \<open>0.9\<close> to every input.\<close>

definition example_loaded :: model_manager where
  "example_loaded = \<lparr> model = Some (\<lambda>x. Inr (9 / 10)), model_loaded = True, model_version = ''v1.0.0'' \<rparr>"

text \<open>What a recommendation of the concrete deployment looks like.\<close>

definition example_recommendation :: "string \<Rightarrow> string \<Rightarrow> recommendation" where
  "example_recommendation query_id candidate_id =
     \<lparr> company_id = candidate_id,
       company_name = candidate_id,
       match_score = 1,
       confidence = 1,
       reasoning =
         \<lparr> compatibility_factors =
             \<lparr> funding_stage_alignment = 1, company_size_alignment = 1,
               growth_trajectory_alignment = 1, market_sentiment_alignment = 1 \<rparr>,
           timing_score = 1 / 2,
           behavioral_alignment = 1 \<rparr>,
       metadata = \<lparr> query_company = query_id, timestamp = ''2024-01-01T00:00:00'' \<rparr> \<rparr>"



definition example_input :: model_input where
  "example_input = \<lparr> dense = replicate 26 0, sparse_a = replicate 26 0, sparse_b = replicate 26 0 \<rparr>"

text \<open>
  A per-query operation that raises for one company and is \<^verbatim>\<open>get_recommendations\<close> of the
  concrete deployment for every other.
\<close>

definition failing_recommend :: "string \<Rightarrow> int \<Rightarrow> error + recommendation list" where
  "failing_recommend cid k =
     (if cid = ''DataViz Pro'' then Inl (RuntimeError ''boom'')
      else get_recommendations example_engine cid k None True)"

text \<open>An empty cache whose writes all go through.\<close>

definition empty_cache :: redis where
  "empty_cache = \<lparr> entries = Map.empty, write_error = (\<lambda>key. None) \<rparr>"

text \<open>What the cache holds under a key after a run; nothing when there is no client.\<close>

definition cached :: "redis option \<Rightarrow> string \<Rightarrow> (int \<times> recommendation list) option" where
  "cached redis_client key =
     (case redis_client of None \<Rightarrow> None | Some client \<Rightarrow> entries client key)"

text \<open>The concrete deployment with a time to live of 0 in its configuration.\<close>

definition zero_ttl_engine :: engine where
  "zero_ttl_engine = example_engine\<lparr> config := (config example_engine)\<lparr> cache_ttl_seconds := 0 \<rparr> \<rparr>"

section \<open>Properties\<close>

subsection \<open>Lists: the reverse sort and the slice\<close>

lemma set_slice_to: "set (slice_to xs k) \<subseteq> set xs"
  by (auto simp: slice_to_def dest: in_set_takeD)

lemma set_sort_reverse: "set (sort_reverse f xs) = set xs"
  by (simp add: sort_reverse_def)

lemma length_slice_to: "0 \<le> k \<Longrightarrow> length (slice_to xs k) \<le> nat k"
  by (simp add: slice_to_def)

lemma sorted_sort_reverse: "sorted_wrt (\<lambda>a b. f a \<ge> f b) (sort_reverse f xs)"
proof -
  have "sorted_wrt (\<lambda>a b. f a \<le> f b) (sort_key f (rev xs))"
    using sorted_sort_key [of f "rev xs"] by (simp add: sorted_wrt_map)
  then show ?thesis
    by (simp add: sort_reverse_def sorted_wrt_rev)
qed

lemma sort_reverse_stable:
  "filter (\<lambda>y. f y = k) (sort_reverse f xs) = filter (\<lambda>y. f y = k) xs"
  by (simp add: sort_reverse_def rev_filter [symmetric] sort_key_stable)

lemma sorted_slice_to: "sorted_wrt P xs \<Longrightarrow> sorted_wrt P (slice_to xs k)"
  by (simp add: slice_to_def sorted_wrt_take)

lemma subseq_filter_slice_to: "subseq (filter P (slice_to xs k)) (filter P xs)"
proof -
  have "subseq (take n xs) xs" for n
    by (rule prefix_imp_subseq) (rule take_is_prefix)
  then have "subseq (slice_to xs k) xs"
    by (simp add: slice_to_def)
  then show ?thesis
    by (rule subseq_filter)
qed

subsection \<open>The candidate loop\<close>

lemma score_candidates_ids:
  "map company_id (score_candidates eng q qf cf cs recs)
   = map company_id recs
     @ filter (\<lambda>c. case cf c of None \<Rightarrow> False
                   | Some f \<Rightarrow> similarity_threshold (config eng) \<le> calculate_match_score eng qf f) cs"
  by (induction cs arbitrary: recs) (auto simp: Let_def make_recommendation_def split: option.splits)

lemma score_candidates_invariant:
  assumes "\<forall>r\<in>set recs. P r"
    and "\<And>c f n. cf c = Some f \<Longrightarrow>
           P (make_recommendation eng q qf c f (calculate_match_score eng qf f) n)"
  shows "\<forall>r\<in>set (score_candidates eng q qf cf cs recs). P r"
  using assms(1)
proof (induction cs arbitrary: recs)
  case Nil
  then show ?case by simp
next
  case (Cons c cs)
  show ?case
  proof (cases "cf c")
    case None
    then show ?thesis using Cons.IH [OF Cons.prems] by simp
  next
    case (Some f)
    let ?new = "make_recommendation eng q qf c f (calculate_match_score eng qf f) (length recs)"
    have new: "P ?new"
      by (rule assms(2) [OF Some])
    have "\<forall>r\<in>set (recs @ [?new]). P r"
      using Cons.prems new by simp
    then have 1: "\<forall>r\<in>set (score_candidates eng q qf cf cs (recs @ [?new])). P r"
      by (rule Cons.IH)
    have 2: "\<forall>r\<in>set (score_candidates eng q qf cf cs recs). P r"
      using Cons.prems by (rule Cons.IH)
    show ?thesis
    proof (cases "similarity_threshold (config eng) \<le> calculate_match_score eng qf f")
      case True
      then have "score_candidates eng q qf cf (c # cs) recs
                 = score_candidates eng q qf cf cs (recs @ [?new])"
        using Some by (simp add: Let_def)
      then show ?thesis using 1 by (simp only:)
    next
      case False
      then have "score_candidates eng q qf cf (c # cs) recs
                 = score_candidates eng q qf cf cs recs"
        using Some by (simp add: Let_def)
      then show ?thesis using 2 by (simp only:)
    qed
  qed
qed

lemma score_candidates_confidence:
  "\<forall>r\<in>set (score_candidates eng q qf cf cs []). confidence r = min (match_score r * (11 / 10)) 1"
  by (rule score_candidates_invariant) (simp_all add: make_recommendation_def)

subsection \<open>The shape of a recommendation call\<close>

text \<open>The candidates of a query: every listed company but the query itself.\<close>

lemma get_recommendations_eq:
  "get_recommendations eng q k flt inc =
     (case get_company_features (feature_client eng) q of
        None \<Rightarrow> Inr []
      | Some qf \<Rightarrow>
          Inr (slice_to (sort_reverse match_score
                 (score_candidates eng q qf
                    (get_batch_features (feature_client eng)
                       (filter (\<lambda>c. c \<noteq> q) (get_all_companies (feature_client eng))))
                    (filter (\<lambda>c. c \<noteq> q) (get_all_companies (feature_client eng))) [])) k))"
proof (cases "get_company_features (feature_client eng) q")
  case None
  then show ?thesis
    by (simp add: get_recommendations_def)
next
  case (Some qf)
  show ?thesis
  proof (cases flt)
    case None
    with Some show ?thesis
      by (simp add: get_recommendations_def Let_def)
  next
    case flt: (Some f)
    with Some show ?thesis
      by (cases "f = []") (simp_all add: get_recommendations_def Let_def apply_filters_def)
  qed
qed

subsection \<open>Norms, dot products and the cosine\<close>





lemma dot_Nil [simp]: "dot [] v = 0" "dot u [] = 0"
  by (simp_all add: dot_def)

lemma dot_Cons: "dot (x # u) (y # v) = x * y + dot u v"
  by (simp add: dot_def)

lemma dot_zeros: "dot (replicate n 0) v = 0"
  unfolding dot_def
  by (induction n arbitrary: v) (auto simp: zip_Cons1 split: list.splits)




lemma dot_scaled: "dot (map (\<lambda>x. x / c) u) (map (\<lambda>y. y / d) v) = dot u v / (c * d)"
proof (induction u arbitrary: v)
  case Nil
  then show ?case by simp
next
  case (Cons x u)
  then show ?case
    by (cases v) (simp_all add: dot_Cons add_divide_distrib)
qed

lemma cosine_similarity_eq:
  "cosine_similarity u v =
     (if length u \<noteq> length v then Inl (ValueError ''Incompatible dimension for X and Y matrices'')
      else Inr (dot u v / (row_scale u * row_scale v)))"
  by (simp add: cosine_similarity_def normalize_def dot_scaled)




lemma norm_pair: "linalg_norm [x, 0] = \<bar>x\<bar>"
  by (simp add: linalg_norm_def)

text \<open>
  Below the threshold of the normalisation the vectors are used as they are: the vector
  \<open>[1e-16, 0]\<close> against itself has cosine 1, and scores \<open>1e-32\<close>.
\<close>

lemma tiny_vectors_unnormalised:
  "linalg_norm [1 / 10 ^ 16, 0] \<noteq> 0
   \<and> linalg_norm [1 / 10 ^ 16, 0] < tiny_norm
   \<and> similarity_fallback [1 / 10 ^ 16, 0] [1 / 10 ^ 16, 0] = 1 / 10 ^ 32"
  by (simp add: similarity_fallback_def cosine_similarity_eq row_scale_def norm_pair tiny_norm_def
      dot_Cons)

subsection \<open>The concrete deployment\<close>

lemma norm_first_axis: "linalg_norm (1 # replicate n 0) = 1"
  by (simp add: linalg_norm_def sum_list_replicate)





lemma example_not_loaded: "\<not> model_loaded (model_manager example_engine)"
  by (simp add: example_engine_def ModelManager_def)

lemma example_threshold: "similarity_threshold (config example_engine) = 1 / 10"
  by (simp add: example_engine_def Config_def no_environ_def getenv_def)

lemma example_score:
  "calculate_match_score example_engine (example_features a) (example_features b) = 1"
  by (simp add: calculate_match_score_def example_not_loaded example_features_def
      dict_get_def similarity_fallback_def norm_first_axis cosine_similarity_eq row_scale_def
      tiny_norm_def dot_Cons dot_zeros)

subsection \<open>C1: the similarity fallback\<close>




subsection \<open>C2: a failed reload\<close>

text \<open>
  C2 as stated: after a reload whose artifact fails to load, the previous model is still
  active (\<open>loaded = true\<close>, scoring calls succeed). On the code the old session is dropped
  before the new one is loaded: a manager that answered \<open>0.9\<close> is unloaded after the failed
  reload, and \<open>predict\<close> raises.
\<close>

theorem reload_keeps_model_counterexample:
  "loaded (get_model_status True example_loaded)
   \<and> predict example_loaded example_input = Inr (9 / 10)
   \<and> fst (reload_model (Inl (LoadError ''schema mismatch'')) example_loaded)
       = Inl (LoadError ''schema mismatch'')
   \<and> \<not> loaded (get_model_status True
                  (snd (reload_model (Inl (LoadError ''schema mismatch'')) example_loaded)))
   \<and> predict (snd (reload_model (Inl (LoadError ''schema mismatch'')) example_loaded)) example_input
       = Inl (ValueError ''Model not loaded'')"
  by (simp add: reload_model_def load_model_def get_model_status_def predict_def example_loaded_def)

text \<open>
  C2, amended: if a reload is attempted and the new artifact fails to load, the reload fails
  with the loader's exception and the reported version is unchanged, but the previous model
  is not kept: no session is held, the status has \<open>loaded = false\<close>, \<open>predict\<close> raises
  "Model not loaded", and the engine scores with the similarity fallback.
\<close>

theorem failed_reload_unloads:
  "fst (reload_model (Inl e) mm) = Inl e
   \<and> model (snd (reload_model (Inl e) mm)) = None
   \<and> loaded (get_model_status gpu (snd (reload_model (Inl e) mm))) = False
   \<and> version (get_model_status gpu (snd (reload_model (Inl e) mm)))
       = version (get_model_status gpu mm)
   \<and> predict (snd (reload_model (Inl e) mm)) x = Inl (ValueError ''Model not loaded'')
   \<and> calculate_match_score (eng\<lparr> model_manager := snd (reload_model (Inl e) mm) \<rparr>) qf cf
       = similarity_fallback (dict_get (culture_vector qf) (replicate 128 0))
                             (dict_get (culture_vector cf) (replicate 128 0))"
  by (simp add: reload_model_def load_model_def get_model_status_def predict_def
      calculate_match_score_def Let_def)

subsection \<open>C8: symmetry of the funding and size alignment\<close>

text \<open>
  C8: the funding-stage alignment is \<open>min(Fa,Fb) / max(Fa,Fb,1) * 0.8 + 0.2\<close>, the
  company-size alignment is the same ratio over the employee counts, \<open>* 0.7 + 0.3\<close>, and both
  are symmetric: analysing \<open>(A, B)\<close> and \<open>(B, A)\<close> gives the same two sub-scores.
  (\<open>Fa\<close> is \<^verbatim>\<open>traction_metrics.funding_amount\<close> of the record, 0 when absent.)
\<close>

theorem funding_and_size_alignment_symmetric:
  "funding_stage_alignment (calculate_compatibility_factors A B)
     = min (dict_get (funding_amount (dict_get (traction_metrics A) empty_traction)) 0)
           (dict_get (funding_amount (dict_get (traction_metrics B) empty_traction)) 0)
       / max (max (dict_get (funding_amount (dict_get (traction_metrics A) empty_traction)) 0)
                  (dict_get (funding_amount (dict_get (traction_metrics B) empty_traction)) 0)) 1
       * (8 / 10) + 2 / 10
   \<and> company_size_alignment (calculate_compatibility_factors A B)
     = min (dict_get (employee_count (dict_get (traction_metrics A) empty_traction)) 0)
           (dict_get (employee_count (dict_get (traction_metrics B) empty_traction)) 0)
       / max (max (dict_get (employee_count (dict_get (traction_metrics A) empty_traction)) 0)
                  (dict_get (employee_count (dict_get (traction_metrics B) empty_traction)) 0)) 1
       * (7 / 10) + 3 / 10
   \<and> funding_stage_alignment (calculate_compatibility_factors A B)
     = funding_stage_alignment (calculate_compatibility_factors B A)
   \<and> company_size_alignment (calculate_compatibility_factors A B)
     = company_size_alignment (calculate_compatibility_factors B A)"
  by (simp add: calculate_compatibility_factors_def Let_def min.commute max.commute)

subsection \<open>Runs of the concrete deployment\<close>

lemma sort_reverse_equal_keys:
  assumes "\<forall>x\<in>set xs. f x = k"
  shows "sort_reverse f xs = xs"
proof -
  have "\<forall>x\<in>set (sort_reverse f xs). f x = k"
    using assms by (simp add: set_sort_reverse)
  then have "filter (\<lambda>y. f y = k) (sort_reverse f xs) = sort_reverse f xs"
    by (simp only: filter_True)
  moreover have "filter (\<lambda>y. f y = k) xs = xs"
    using assms by (simp only: filter_True)
  ultimately show ?thesis
    using sort_reverse_stable [of f k xs] by simp
qed

lemma example_make:
  "make_recommendation example_engine q (example_features q) c (example_features c) 1 n
   = example_recommendation q c"
  by (simp add: make_recommendation_def example_recommendation_def
      calculate_compatibility_factors_def calculate_timing_score_def
      calculate_behavioral_alignment_def example_features_def dict_get_def
      norm_first_axis cosine_similarity_eq row_scale_def tiny_norm_def dot_Cons dot_zeros
      Let_def example_engine_def)

lemma example_feature_client: "feature_client example_engine = example_client"
  by (simp add: example_engine_def)

lemma example_company:
  "get_company_features example_client q
   = (if q \<in> set mock_companies then Some (example_features q) else None)"
  by (simp add: get_company_features_def example_client_def)

lemma example_all_companies: "get_all_companies example_client = mock_companies"
  by (simp add: get_all_companies_def example_client_def)

lemma example_fold:
  "[] \<notin> set ids \<Longrightarrow>
   fold features_map_insert (map example_features ids) m c
   = (if c \<in> set ids then Some (example_features c) else m c)"
  by (induction ids arbitrary: m) (auto simp: features_map_insert_def example_features_def)

lemma example_batch:
  assumes "set ids \<subseteq> set mock_companies" and "c \<in> set ids"
  shows "get_batch_features example_client ids c = Some (example_features c)"
proof -
  have keep: "filter (\<lambda>c. c \<in> set mock_companies) ids = ids"
    using assms(1) by (auto simp only: filter_id_conv)
  have "[] \<notin> set mock_companies"
    by (simp add: mock_companies_def)
  then have "[] \<notin> set ids"
    using assms(1) by auto
  then show ?thesis
    using assms(2) by (simp add: get_batch_features_def example_client_def keep example_fold)
qed

lemma example_loop:
  "\<forall>c\<in>set cs. cf c = Some (example_features c) \<Longrightarrow>
   score_candidates example_engine q (example_features q) cf cs recs
   = recs @ map (example_recommendation q) cs"
  by (induction cs arbitrary: recs)
     (simp_all add: example_score example_threshold example_make Let_def)

lemma example_run:
  assumes "q \<in> set mock_companies"
  shows "get_recommendations example_engine q k flt inc
         = Inr (slice_to (map (example_recommendation q) (filter (\<lambda>c. c \<noteq> q) mock_companies)) k)"
proof -
  let ?cs = "filter (\<lambda>c. c \<noteq> q) mock_companies"
  have "\<forall>c\<in>set ?cs. get_batch_features example_client ?cs c = Some (example_features c)"
    by (intro ballI example_batch) auto
  then have loop: "score_candidates example_engine q (example_features q)
                     (get_batch_features example_client ?cs) ?cs []
                   = map (example_recommendation q) ?cs"
    by (simp add: example_loop)
  have "\<forall>r\<in>set (map (example_recommendation q) ?cs). match_score r = 1"
    by (simp add: example_recommendation_def)
  then have "sort_reverse match_score (map (example_recommendation q) ?cs)
             = map (example_recommendation q) ?cs"
    by (rule sort_reverse_equal_keys)
  then show ?thesis
    using assms
    by (simp add: get_recommendations_eq example_feature_client example_company
        example_all_companies loop)
qed

lemma example_unknown:
  assumes "q \<notin> set mock_companies"
  shows "get_company_features (feature_client example_engine) q = None"
  using assms by (simp add: example_feature_client example_company)

subsection \<open>C3: a query with no feature record\<close>

text \<open>
  C3 as stated: a query whose feature lookup yields nothing makes \<open>recommend\<close> fail with an
  \<open>UnknownCompany\<close> error. On the code the call returns normally, with the empty list: the
  feature store answers 404 for \<open>Unknown Co\<close>, and the result is \<open>Inr []\<close>, not an error.
\<close>

theorem unknown_company_counterexample:
  "get_company_features (feature_client example_engine) ''Unknown Co'' = None
   \<and> get_recommendations example_engine ''Unknown Co'' 10 None True = Inr []
   \<and> \<not> isl (get_recommendations example_engine ''Unknown Co'' 10 None True)"
proof -
  have "get_company_features (feature_client example_engine) ''Unknown Co'' = None"
    by (rule example_unknown) (simp add: mock_companies_def)
  then show ?thesis
    by (simp add: get_recommendations_def)
qed

text \<open>
  C3, amended: for every query company id whose feature lookup yields no feature record
  (a non-200 answer, a transport failure or an empty object), \<open>recommend\<close> logs a warning and
  returns the empty list as a normal result; no error is raised.
\<close>

theorem unknown_company_empty_result:
  "get_company_features (feature_client eng) q = None
   \<Longrightarrow> get_recommendations eng q k flt inc = Inr []"
  by (simp add: get_recommendations_def)

theorem unknown_company_empty_result_witness:
  "get_company_features (feature_client example_engine) ''No Such Startup'' = None
   \<and> get_recommendations example_engine ''No Such Startup'' 5 (Some [(''stage'', ''seed'')]) False
       = Inr []"
proof -
  have none: "get_company_features (feature_client example_engine) ''No Such Startup'' = None"
    by (rule example_unknown) (simp add: mock_companies_def)
  show ?thesis
    using none unknown_company_empty_result [OF none, of 5 "Some [(''stage'', ''seed'')]" False]
    by simp
qed

subsection \<open>C7: the query is never recommended to itself\<close>

text \<open>
  C7: for every query company id and every input state (engine, feature-store answers,
  \<open>top_k\<close>, filters), \<open>recommend\<close> returns a list, and no recommendation in it has the
  query's id as its \<open>company_id\<close>.
\<close>

theorem query_not_recommended:
  "\<exists>rs. get_recommendations eng q k flt inc = Inr rs \<and> (\<forall>r\<in>set rs. company_id r \<noteq> q)"
proof (cases "get_company_features (feature_client eng) q")
  case None
  then show ?thesis
    by (simp add: get_recommendations_def)
next
  case (Some qf)
  let ?cs = "filter (\<lambda>c. c \<noteq> q) (get_all_companies (feature_client eng))"
  let ?recs = "score_candidates eng q qf (get_batch_features (feature_client eng) ?cs) ?cs []"
  have "set (map company_id ?recs) \<subseteq> set ?cs"
    by (simp only: score_candidates_ids) auto
  then have "\<forall>r\<in>set ?recs. company_id r \<noteq> q"
    by auto
  then have "\<forall>r\<in>set (slice_to (sort_reverse match_score ?recs) k). company_id r \<noteq> q"
    using set_slice_to [of "sort_reverse match_score ?recs" k]
    by (auto simp: set_sort_reverse)
  then show ?thesis
    using Some by (simp add: get_recommendations_eq)
qed

theorem query_not_recommended_witness:
  "get_recommendations example_engine ''GreenStart Solutions'' 3 None True
     = Inr [example_recommendation ''GreenStart Solutions'' ''TechFlow AI'',
            example_recommendation ''GreenStart Solutions'' ''DataViz Pro'',
            example_recommendation ''GreenStart Solutions'' ''CloudScale Systems'']
   \<and> ''GreenStart Solutions''
       \<notin> set (map company_id
                [example_recommendation ''GreenStart Solutions'' ''TechFlow AI'',
                 example_recommendation ''GreenStart Solutions'' ''DataViz Pro'',
                 example_recommendation ''GreenStart Solutions'' ''CloudScale Systems''])"
proof -
  have run: "get_recommendations example_engine ''GreenStart Solutions'' 3 None True
     = Inr [example_recommendation ''GreenStart Solutions'' ''TechFlow AI'',
            example_recommendation ''GreenStart Solutions'' ''DataViz Pro'',
            example_recommendation ''GreenStart Solutions'' ''CloudScale Systems'']"
    by (subst example_run) (simp_all add: mock_companies_def slice_to_def)
  show ?thesis
    using query_not_recommended [of example_engine "''GreenStart Solutions''" 3 None True]
    by (auto simp: run)
qed

subsection \<open>C9: confidence\<close>

text \<open>
  C9: \<open>recommend\<close> returns a list, and every recommendation in it has
  \<open>confidence = min(match_score * 1.1, 1.0)\<close>; in particular its confidence is at most 1.
\<close>

theorem confidence_formula:
  "\<exists>rs. get_recommendations eng q k flt inc = Inr rs
        \<and> (\<forall>r\<in>set rs. confidence r = min (match_score r * (11 / 10)) 1 \<and> confidence r \<le> 1)"
proof (cases "get_company_features (feature_client eng) q")
  case None
  then show ?thesis
    by (simp add: get_recommendations_def)
next
  case (Some qf)
  let ?cs = "filter (\<lambda>c. c \<noteq> q) (get_all_companies (feature_client eng))"
  let ?recs = "score_candidates eng q qf (get_batch_features (feature_client eng) ?cs) ?cs []"
  have "\<forall>r\<in>set ?recs. confidence r = min (match_score r * (11 / 10)) 1"
    by (rule score_candidates_confidence)
  then have "\<forall>r\<in>set (slice_to (sort_reverse match_score ?recs) k).
               confidence r = min (match_score r * (11 / 10)) 1"
    using set_slice_to [of "sort_reverse match_score ?recs" k]
    by (auto simp: set_sort_reverse)
  then have "\<forall>r\<in>set (slice_to (sort_reverse match_score ?recs) k).
               confidence r = min (match_score r * (11 / 10)) 1 \<and> confidence r \<le> 1"
    by simp
  then show ?thesis
    using Some by (simp add: get_recommendations_eq)
qed

theorem confidence_formula_witness:
  "get_recommendations example_engine ''CyberGuard'' 2 None True
     = Inr [example_recommendation ''CyberGuard'' ''TechFlow AI'',
            example_recommendation ''CyberGuard'' ''GreenStart Solutions'']
   \<and> match_score (example_recommendation ''CyberGuard'' ''TechFlow AI'') = 1
   \<and> confidence (example_recommendation ''CyberGuard'' ''TechFlow AI'') = min (1 * (11 / 10)) 1
   \<and> confidence (example_recommendation ''CyberGuard'' ''GreenStart Solutions'') \<le> 1"
proof -
  have run: "get_recommendations example_engine ''CyberGuard'' 2 None True
     = Inr [example_recommendation ''CyberGuard'' ''TechFlow AI'',
            example_recommendation ''CyberGuard'' ''GreenStart Solutions'']"
    by (subst example_run) (simp_all add: mock_companies_def slice_to_def)
  have score: "match_score (example_recommendation ''CyberGuard'' ''TechFlow AI'') = 1"
    by (simp add: example_recommendation_def)
  show ?thesis
    using confidence_formula [of example_engine "''CyberGuard''" 2 None True] score
    by (auto simp: run)
qed

subsection \<open>C10: the filters argument\<close>

text \<open>
  C10: the result of \<open>recommend\<close> does not depend on its filters argument: for the same
  engine (feature-store answers and clock readings included), query and \<open>top_k\<close>, any two
  filter values, \<open>None\<close> included, give the same result, since \<open>_apply_filters\<close> returns the
  candidate list unchanged.
\<close>

theorem filters_ignored:
  "get_recommendations eng q k f1 inc = get_recommendations eng q k f2 inc
   \<and> apply_filters cs f = cs"
  by (simp add: get_recommendations_eq [of eng q k f1] get_recommendations_eq [of eng q k f2]
      apply_filters_def)

subsection \<open>C4: length and order of the result\<close>

text \<open>
  C4 as stated: the result has at most \<open>top_k\<close> entries and is sorted by descending score,
  equal scores being ordered by candidate id. Two parts fail on the code. All eleven
  candidates of the run below score 1 and come back in the order the feature client lists
  them: the first two are in descending order of id, the fifth and sixth in ascending order,
  so ties are ordered by id in neither direction. And \<open>top_k = -1\<close> is a slice from the end:
  ten entries come back, more than \<open>top_k\<close>.
\<close>

theorem ties_by_id_counterexample:
  "map_sum id (map company_id)
     (get_recommendations example_engine ''SmartCity Tech'' 12 None True)
   = Inr [''TechFlow AI'', ''GreenStart Solutions'', ''DataViz Pro'',
          ''CloudScale Systems'', ''AI Innovations'', ''FinTech Plus'',
          ''HealthTech Solutions'', ''EduTech Platform'', ''RetailBot'',
          ''LogiChain'', ''CyberGuard'']
   \<and> map_sum id (map match_score)
     (get_recommendations example_engine ''SmartCity Tech'' 12 None True)
   = Inr [1, 1, 1, 1, 1, 1, 1, 1, 1, 1, 1]
   \<and> ''GreenStart Solutions'' < ''TechFlow AI''
   \<and> ''AI Innovations'' < ''FinTech Plus''
   \<and> map_sum id length (get_recommendations example_engine ''SmartCity Tech'' (- 1) None True)
     = Inr 10
   \<and> \<not> int 10 \<le> - 1"
proof -
  have a: "map_sum id (map company_id)
     (get_recommendations example_engine ''SmartCity Tech'' 12 None True)
   = Inr [''TechFlow AI'', ''GreenStart Solutions'', ''DataViz Pro'',
          ''CloudScale Systems'', ''AI Innovations'', ''FinTech Plus'',
          ''HealthTech Solutions'', ''EduTech Platform'', ''RetailBot'',
          ''LogiChain'', ''CyberGuard'']"
    by (subst example_run)
       (simp_all add: mock_companies_def slice_to_def example_recommendation_def)
  have a': "map_sum id (map match_score)
     (get_recommendations example_engine ''SmartCity Tech'' 12 None True)
   = Inr [1, 1, 1, 1, 1, 1, 1, 1, 1, 1, 1]"
    by (subst example_run)
       (simp_all add: mock_companies_def slice_to_def example_recommendation_def)
  have b: "''GreenStart Solutions'' < ''TechFlow AI'' \<and> ''AI Innovations'' < ''FinTech Plus''"
    by (simp add: less_char_def)
  have c: "map_sum id length (get_recommendations example_engine ''SmartCity Tech'' (- 1) None True)
     = Inr 10"
    by (subst example_run) (simp_all add: mock_companies_def slice_to_def)
  show ?thesis
    using a a' b c by simp
qed

text \<open>
  C4, amended: \<open>recommend\<close> returns a list that, for \<open>top_k \<ge> 0\<close>, has at most \<open>top_k\<close>
  entries, and that for every \<open>top_k\<close> is sorted in descending order of \<open>match_score\<close>;
  recommendations of equal score keep the order in which the feature client enumerated
  their candidates (the sort is stable): for each score, the ids carrying it form a
  subsequence of the enumerated company list.
\<close>

theorem result_length_and_order:
  "\<exists>rs. get_recommendations eng q k flt inc = Inr rs
        \<and> (0 \<le> k \<longrightarrow> int (length rs) \<le> k)
        \<and> sorted_wrt (\<lambda>a b. match_score a \<ge> match_score b) rs
        \<and> (\<forall>s. subseq (map company_id (filter (\<lambda>r. match_score r = s) rs))
                        (get_all_companies (feature_client eng)))"
proof (cases "get_company_features (feature_client eng) q")
  case None
  then show ?thesis
    by (simp add: get_recommendations_def)
next
  case (Some qf)
  let ?all = "get_all_companies (feature_client eng)"
  let ?cs = "filter (\<lambda>c. c \<noteq> q) ?all"
  let ?recs = "score_candidates eng q qf (get_batch_features (feature_client eng) ?cs) ?cs []"
  let ?rs = "slice_to (sort_reverse match_score ?recs) k"
  have len: "0 \<le> k \<longrightarrow> int (length ?rs) \<le> k"
    using length_slice_to [of k "sort_reverse match_score ?recs"] by auto
  have sorted: "sorted_wrt (\<lambda>a b. match_score a \<ge> match_score b) ?rs"
    by (rule sorted_slice_to) (rule sorted_sort_reverse)
  have ties: "subseq (map company_id (filter (\<lambda>r. match_score r = s) ?rs)) ?all" for s
  proof -
    have "subseq (filter (\<lambda>r. match_score r = s) ?rs)
                 (filter (\<lambda>r. match_score r = s) (sort_reverse match_score ?recs))"
      by (rule subseq_filter_slice_to)
    then have "subseq (filter (\<lambda>r. match_score r = s) ?rs) (filter (\<lambda>r. match_score r = s) ?recs)"
      by (simp only: sort_reverse_stable)
    then have "subseq (filter (\<lambda>r. match_score r = s) ?rs) ?recs"
      by (rule subseq_order.trans) (rule subseq_filter_left)
    then have "subseq (map company_id (filter (\<lambda>r. match_score r = s) ?rs)) (map company_id ?recs)"
      by (rule subseq_map)
    moreover have "subseq (map company_id ?recs) ?cs"
      by (simp only: score_candidates_ids list.map append_Nil) (rule subseq_filter_left)
    moreover have "subseq ?cs ?all"
      by (rule subseq_filter_left)
    ultimately show ?thesis
      by (meson subseq_order.trans)
  qed
  show ?thesis
    using Some len sorted ties by (simp add: get_recommendations_eq)
qed

theorem result_length_and_order_witness:
  "(0::int) \<le> 3
   \<and> get_recommendations example_engine ''LogiChain'' 3 None True
       = Inr [example_recommendation ''LogiChain'' ''TechFlow AI'',
              example_recommendation ''LogiChain'' ''GreenStart Solutions'',
              example_recommendation ''LogiChain'' ''DataViz Pro'']
   \<and> int (length [example_recommendation ''LogiChain'' ''TechFlow AI'',
                   example_recommendation ''LogiChain'' ''GreenStart Solutions'',
                   example_recommendation ''LogiChain'' ''DataViz Pro'']) \<le> 3
   \<and> subseq [''TechFlow AI'', ''GreenStart Solutions'', ''DataViz Pro'']
             (get_all_companies (feature_client example_engine))"
proof -
  let ?rs = "[example_recommendation ''LogiChain'' ''TechFlow AI'',
              example_recommendation ''LogiChain'' ''GreenStart Solutions'',
              example_recommendation ''LogiChain'' ''DataViz Pro'']"
  have run: "get_recommendations example_engine ''LogiChain'' 3 None True = Inr ?rs"
    by (subst example_run) (simp_all add: mock_companies_def slice_to_def)
  obtain rs where rs: "get_recommendations example_engine ''LogiChain'' 3 None True = Inr rs"
    and len: "0 \<le> (3::int) \<longrightarrow> int (length rs) \<le> 3"
    and ties: "\<forall>s. subseq (map company_id (filter (\<lambda>r. match_score r = s) rs))
                            (get_all_companies (feature_client example_engine))"
    using result_length_and_order [of example_engine "''LogiChain''" 3 None True] by blast
  have eq: "rs = ?rs"
    using rs run by simp
  have "subseq (map company_id (filter (\<lambda>r. match_score r = 1) ?rs))
               (get_all_companies (feature_client example_engine))"
    using ties eq by blast
  then have "subseq [''TechFlow AI'', ''GreenStart Solutions'', ''DataViz Pro'']
               (get_all_companies (feature_client example_engine))"
    by (simp add: example_recommendation_def)
  then show ?thesis
    using run len eq by simp
qed

subsection \<open>Batches\<close>

lemma update_new_key: "k \<notin> fst ` set al \<Longrightarrow> AList.update k v al = al @ [(k, v)]"
  by (induction al) auto

lemma fold_collect_distinct:
  assumes "distinct ids" and "set ids \<inter> fst ` set acc = {}"
  shows "fold collect_result (map (\<lambda>c. Inr (c, h c)) ids) acc = acc @ map (\<lambda>c. (c, h c)) ids"
  using assms
proof (induction ids arbitrary: acc)
  case Nil
  then show ?case by simp
next
  case (Cons c ids)
  have new: "c \<notin> fst ` set acc"
    using Cons.prems(2) by auto
  have step: "collect_result (Inr (c, h c)) acc = acc @ [(c, h c)]"
    using new by (simp add: collect_result_def update_new_key)
  have "set ids \<inter> fst ` set (acc @ [(c, h c)]) = {}"
    using Cons.prems by auto
  then have "fold collect_result (map (\<lambda>c. Inr (c, h c)) ids) (acc @ [(c, h c)])
             = (acc @ [(c, h c)]) @ map (\<lambda>c. (c, h c)) ids"
    using Cons.prems(1) by (intro Cons.IH) simp_all
  then show ?case
    by (simp add: step)
qed

lemma fold_collect_map_of:
  "map_of (fold collect_result (map (\<lambda>c. Inr (c, h c)) ids) acc) c
   = (if c \<in> set ids then Some (h c) else map_of acc c)"
  by (induction ids arbitrary: acc) (auto simp: collect_result_def update_conv')

lemma fold_collect_keys:
  "distinct (map fst acc) \<Longrightarrow>
   distinct (map fst (fold collect_result (map (\<lambda>c. Inr (c, h c)) ids) acc))"
  by (induction ids arbitrary: acc) (simp_all add: collect_result_def distinct_update)

lemma fold_collect_dom:
  "fst ` set (fold collect_result (map (\<lambda>c. Inr (c, h c)) ids) acc) = fst ` set acc \<union> set ids"
  by (induction ids arbitrary: acc) (auto simp: collect_result_def dom_update)

lemma process_company_eq:
  "process_company recommend k c = (c, case recommend c k of Inr rs \<Rightarrow> rs | Inl e \<Rightarrow> [])"
  by (simp add: process_company_def split: sum.split)

lemma batch_with_eq:
  "batch_with recommend ids k
   = Inr (fold collect_result
            (map (\<lambda>c. Inr (c, case recommend c k of Inr rs \<Rightarrow> rs | Inl e \<Rightarrow> [])) ids) [])"
  by (simp add: batch_with_def process_company_eq)

lemma cache_key_inj: "cache_key c = cache_key c' \<longleftrightarrow> c = c'"
  by (simp add: cache_key_def)

lemma setex_stores:
  assumes "setex client key ttl v = Inr client'"
  shows "entries client' = (entries client)(key \<mapsto> (ttl, v))"
    and "write_error client' = write_error client"
    and "0 < ttl"
  using assms by (auto simp: setex_def split: option.splits if_splits)

lemma store_results_other:
  "store_results ttl d client = (outcome, client') \<Longrightarrow> key \<notin> cache_key ` fst ` set d \<Longrightarrow>
   entries client' key = entries client key"
proof (induction d arbitrary: client)
  case Nil
  then show ?case by simp
next
  case (Cons p d)
  obtain c' r' where p: "p = (c', r')"
    by (cases p)
  show ?case
  proof (cases "setex client (cache_key c') ttl r'")
    case (Inl e)
    then show ?thesis
      using Cons.prems by (simp add: p)
  next
    case (Inr client1)
    then have run: "store_results ttl d client1 = (outcome, client')"
      using Cons.prems(1) by (simp add: p)
    have "key \<notin> cache_key ` fst ` set d" and "key \<noteq> cache_key c'"
      using Cons.prems(2) by (auto simp: p)
    then have "entries client' key = entries client1 key" and "entries client1 key = entries client key"
      using Cons.IH [OF run] setex_stores(1) [OF Inr] by simp_all
    then show ?thesis by simp
  qed
qed

lemma store_results_written:
  "store_results ttl d client = (Inr (), client') \<Longrightarrow> distinct (map fst d) \<Longrightarrow>
   entries client' (cache_key c)
   = (case map_of d c of Some r \<Rightarrow> Some (ttl, r) | None \<Rightarrow> entries client (cache_key c))"
proof (induction d arbitrary: client)
  case Nil
  then show ?case by simp
next
  case (Cons p d)
  obtain c' r' where p: "p = (c', r')"
    by (cases p)
  show ?case
  proof (cases "setex client (cache_key c') ttl r'")
    case (Inl e)
    then show ?thesis
      using Cons.prems(1) by (simp add: p)
  next
    case (Inr client1)
    then have run: "store_results ttl d client1 = (Inr (), client')"
      using Cons.prems(1) by (simp add: p)
    have dist: "distinct (map fst d)" and new: "c' \<notin> fst ` set d"
      using Cons.prems(2) by (simp_all add: p)
    have stored: "entries client1 = (entries client)(cache_key c' \<mapsto> (ttl, r'))"
      by (rule setex_stores(1) [OF Inr])
    show ?thesis
    proof (cases "c = c'")
      case True
      then have "cache_key c \<notin> cache_key ` fst ` set d"
        using new by (force simp: cache_key_inj)
      then have "entries client' (cache_key c) = entries client1 (cache_key c)"
        by (rule store_results_other [OF run])
      then show ?thesis
        using True by (simp add: p stored)
    next
      case False
      then have "entries client1 (cache_key c) = entries client (cache_key c)"
        by (simp add: stored cache_key_inj)
      then show ?thesis
        using False Cons.IH [OF run dist] by (simp add: p split: option.split)
    qed
  qed
qed

text \<open>
  The storing loop completes when the time to live is positive and no write raises; with a
  time to live that is not positive its first write is refused and nothing is stored.
\<close>

lemma store_results_completes:
  "0 < ttl \<Longrightarrow> \<forall>key. write_error client key = None \<Longrightarrow> fst (store_results ttl d client) = Inr ()"
proof (induction d arbitrary: client)
  case Nil
  then show ?case by simp
next
  case (Cons p d)
  obtain c' r' where p: "p = (c', r')"
    by (cases p)
  let ?client1 = "client\<lparr> entries := (entries client)(cache_key c' \<mapsto> (ttl, r')) \<rparr>"
  have step: "setex client (cache_key c') ttl r' = Inr ?client1"
    using Cons.prems by (simp add: setex_def)
  have "\<forall>key. write_error ?client1 key = None"
    using Cons.prems(2) by simp
  then have "fst (store_results ttl d ?client1) = Inr ()"
    by (rule Cons.IH [OF Cons.prems(1)])
  then show ?case
    by (simp add: p step)
qed

lemma store_results_refused:
  assumes "ttl \<le> 0" and "d \<noteq> []"
  shows "isl (fst (store_results ttl d client)) \<and> snd (store_results ttl d client) = client"
proof -
  obtain c' r' rest where d: "d = (c', r') # rest"
    using assms(2) by (cases d) auto
  have "isl (setex client (cache_key c') ttl r')"
    using assms(1) by (simp add: setex_def split: option.split)
  then obtain e where "setex client (cache_key c') ttl r' = Inl e"
    by (cases "setex client (cache_key c') ttl r'") auto
  then show ?thesis
    by (simp add: d)
qed

subsection \<open>C6: one entry per query, failures as empty lists\<close>

text \<open>
  C6: for every list of \<open>N\<close> distinct query ids and every per-query operation, the batch
  returns a dictionary with exactly \<open>N\<close> entries, one per query id and in the order of the
  ids; a query whose processing raises is mapped to the empty list, and every other query
  to its own result, whatever the other queries did. (\<open>get_batch_recommendations\<close> is
  \<open>batch_with\<close> at the engine's own \<open>get_recommendations\<close>; the theorem holds for any
  per-query operation, so also for one that raises.)
\<close>

theorem batch_one_entry_per_query:
  "distinct ids \<Longrightarrow>
   \<exists>d. batch_with recommend ids k = Inr d
       \<and> length d = length ids
       \<and> map fst d = ids
       \<and> (\<forall>c\<in>set ids. map_of d c = Some (case recommend c k of Inr rs \<Rightarrow> rs | Inl e \<Rightarrow> []))"
proof -
  assume "distinct ids"
  then have "fold collect_result
               (map (\<lambda>c. Inr (c, case recommend c k of Inr rs \<Rightarrow> rs | Inl e \<Rightarrow> [])) ids) []
             = [] @ map (\<lambda>c. (c, case recommend c k of Inr rs \<Rightarrow> rs | Inl e \<Rightarrow> [])) ids"
    by (rule fold_collect_distinct) simp
  then have d: "batch_with recommend ids k
             = Inr (map (\<lambda>c. (c, case recommend c k of Inr rs \<Rightarrow> rs | Inl e \<Rightarrow> [])) ids)"
    by (simp add: batch_with_eq)
  have "map_of (map (\<lambda>c. (c, case recommend c k of Inr rs \<Rightarrow> rs | Inl e \<Rightarrow> [])) ids) c
        = Some (case recommend c k of Inr rs \<Rightarrow> rs | Inl e \<Rightarrow> [])" if "c \<in> set ids" for c
    using that by (induction ids) auto
  then show ?thesis
    by (simp add: d comp_def)
qed

theorem batch_one_entry_per_query_witness:
  "distinct [''TechFlow AI'', ''Unknown Co'', ''DataViz Pro'']
   \<and> failing_recommend ''DataViz Pro'' 1 = Inl (RuntimeError ''boom'')
   \<and> batch_with failing_recommend [''TechFlow AI'', ''Unknown Co'', ''DataViz Pro''] 1
       = Inr [(''TechFlow AI'', [example_recommendation ''TechFlow AI'' ''GreenStart Solutions'']),
              (''Unknown Co'', []),
              (''DataViz Pro'', [])]"
proof -
  let ?ids = "[''TechFlow AI'', ''Unknown Co'', ''DataViz Pro'']"
  have dist: "distinct ?ids"
    by simp
  have a: "failing_recommend ''TechFlow AI'' 1
           = Inr [example_recommendation ''TechFlow AI'' ''GreenStart Solutions'']"
    unfolding failing_recommend_def
    by (subst example_run) (simp_all add: mock_companies_def slice_to_def)
  have "get_company_features (feature_client example_engine) ''Unknown Co'' = None"
    by (rule example_unknown) (simp add: mock_companies_def)
  then have "get_recommendations example_engine ''Unknown Co'' 1 None True = Inr []"
    by (simp add: get_recommendations_def)
  then have b: "failing_recommend ''Unknown Co'' 1 = Inr []"
    by (simp add: failing_recommend_def)
  have c: "failing_recommend ''DataViz Pro'' 1 = Inl (RuntimeError ''boom'')"
    by (simp add: failing_recommend_def)
  obtain d where all: "batch_with failing_recommend ?ids 1 = Inr d
       \<and> length d = length ?ids
       \<and> map fst d = ?ids
       \<and> (\<forall>c\<in>set ?ids. map_of d c
                 = Some (case failing_recommend c 1 of Inr rs \<Rightarrow> rs | Inl e \<Rightarrow> []))"
    using batch_one_entry_per_query [OF dist, of failing_recommend 1] ..
  have d: "batch_with failing_recommend ?ids 1 = Inr d"
    using all by (elim conjE)
  have keys: "map fst d = ?ids"
    using all by (elim conjE)
  have vals: "\<forall>c\<in>set ?ids. map_of d c
                 = Some (case failing_recommend c 1 of Inr rs \<Rightarrow> rs | Inl e \<Rightarrow> [])"
    using all by (elim conjE)
  obtain v1 v2 v3 where shape: "d = [(''TechFlow AI'', v1), (''Unknown Co'', v2), (''DataViz Pro'', v3)]"
    using keys by (auto simp: map_eq_Cons_conv)
  have "v1 = [example_recommendation ''TechFlow AI'' ''GreenStart Solutions'']" "v2 = []" "v3 = []"
    using vals a b c by (simp_all add: shape)
  then show ?thesis
    using d shape c by simp
qed

subsection \<open>C5: the cache entries of a background batch\<close>

lemma example_ttl: "cache_ttl_seconds (config example_engine) = 3600"
  by (simp add: example_engine_def Config_def no_environ_def getenv_def)

lemma example_single_batch:
  "get_batch_recommendations example_engine [''TechFlow AI''] 1
   = Inr [(''TechFlow AI'', [example_recommendation ''TechFlow AI'' ''GreenStart Solutions''])]"
proof -
  have run: "get_recommendations example_engine ''TechFlow AI'' 1 None True
             = Inr [example_recommendation ''TechFlow AI'' ''GreenStart Solutions'']"
    by (subst example_run) (simp_all add: mock_companies_def slice_to_def)
  show ?thesis
    by (simp add: get_batch_recommendations_def batch_with_def process_company_def
        collect_result_def run)
qed

text \<open>
  With a time to live of 0 in the configuration the first write is refused: the batch is
  logged as failed and the cache stays empty.
\<close>

lemma zero_ttl_batch_fails:
  "process_batch_recommendations zero_ttl_engine [''TechFlow AI'', ''Unknown Co''] 1 (Some empty_cache)
   = (Inl (ResponseError ''invalid expire time in setex''), Some empty_cache)"
proof -
  have run: "get_recommendations example_engine ''TechFlow AI'' 1 None True
             = Inr [example_recommendation ''TechFlow AI'' ''GreenStart Solutions'']"
    by (subst example_run) (simp_all add: mock_companies_def slice_to_def)
  have same: "get_recommendations zero_ttl_engine q k flt inc
              = get_recommendations example_engine q k flt inc" for q k flt inc
  proof -
    have fc: "feature_client zero_ttl_engine = feature_client example_engine"
      by (simp add: zero_ttl_engine_def)
    have sc: "score_candidates zero_ttl_engine q qf cf cs recs
              = score_candidates example_engine q qf cf cs recs" for qf cf cs recs
      by (induction cs arbitrary: recs)
         (simp_all add: zero_ttl_engine_def calculate_match_score_def make_recommendation_def
            Let_def split: option.split)
    show ?thesis
      by (cases "get_company_features (feature_client example_engine) q")
         (simp_all add: get_recommendations_eq fc sc)
  qed
  have none: "get_company_features (feature_client example_engine) ''Unknown Co'' = None"
    by (rule example_unknown) (simp add: mock_companies_def)
  have unknown: "get_recommendations example_engine ''Unknown Co'' 1 None True = Inr []"
    using none by (simp add: get_recommendations_def)
  have ttl: "cache_ttl_seconds (config zero_ttl_engine) = 0"
    by (simp add: zero_ttl_engine_def)
  show ?thesis
    by (simp add: process_batch_recommendations_def get_batch_recommendations_def batch_with_def
        process_company_def collect_result_def same run unknown ttl setex_def empty_cache_def)
qed

text \<open>
  C5 as stated: the list of each query is cached under the key \<open>batch:{queryId}\<close>. On the
  code the key is \<open>batch_recommendations:{queryId}\<close>: a background batch over \<open>TechFlow AI\<close>
  on an empty cache completes, nothing is stored under \<open>batch:TechFlow AI\<close>, and the list is
  stored, with 3600 seconds to live, under \<open>batch_recommendations:TechFlow AI\<close>.
\<close>

theorem cache_key_counterexample:
  "fst (process_batch_recommendations example_engine [''TechFlow AI''] 1 (Some empty_cache)) = Inr ()
   \<and> cached (snd (process_batch_recommendations example_engine [''TechFlow AI''] 1 (Some empty_cache)))
        ''batch:TechFlow AI'' = None
   \<and> cached (snd (process_batch_recommendations example_engine [''TechFlow AI''] 1 (Some empty_cache)))
        ''batch_recommendations:TechFlow AI''
     = Some (3600, [example_recommendation ''TechFlow AI'' ''GreenStart Solutions''])"
  by (simp add: process_batch_recommendations_def example_single_batch example_ttl setex_def
      cache_key_def cached_def empty_cache_def)

text \<open>
  C5, amended: when a background batch completes (no exception reaches its handler), each
  query's recommendation list (the empty list for a query that raised) is in the result
  cache under the key \<open>batch_recommendations:{queryId}\<close>, with the time to live
  \<open>config.cache_ttl_seconds\<close>, whose default (no \<open>CACHE_TTL_SECONDS\<close> in the environment) is
  3600 seconds.
\<close>

theorem batch_results_cached:
  assumes "fst (process_batch_recommendations eng ids k redis_client) = Inr ()"
    and "c \<in> set ids"
  shows "\<exists>client'. snd (process_batch_recommendations eng ids k redis_client) = Some client'
           \<and> entries client' (''batch_recommendations:'' @ c)
               = Some (cache_ttl_seconds (config eng),
                       case get_recommendations eng c k None True of Inr rs \<Rightarrow> rs | Inl e \<Rightarrow> [])
           \<and> cache_ttl_seconds (Config no_environ) = 3600"
proof -
  let ?h = "\<lambda>c. case get_recommendations eng c k None True of Inr rs \<Rightarrow> rs | Inl e \<Rightarrow> []"
  let ?d = "fold collect_result (map (\<lambda>c. Inr (c, ?h c)) ids) []"
  let ?ttl = "cache_ttl_seconds (config eng)"
  have batch: "get_batch_recommendations eng ids k = Inr ?d"
    by (simp add: get_batch_recommendations_def batch_with_eq)
  have "c \<in> fst ` set ?d"
    using assms(2) by (simp add: fold_collect_dom)
  then have nonempty: "?d \<noteq> []"
    by auto
  have ttl: "cache_ttl_seconds (Config no_environ) = 3600"
    by (simp add: Config_def no_environ_def getenv_def)
  show ?thesis
  proof (cases redis_client)
    case None
    then have "fst (process_batch_recommendations eng ids k redis_client)
               = Inl (AttributeError ''NoneType has no attribute setex'')"
      using nonempty by (simp add: process_batch_recommendations_def batch)
    then show ?thesis
      using assms(1) by simp
  next
    case (Some client)
    obtain outcome client' where loop: "store_results ?ttl ?d client = (outcome, client')"
      by (cases "store_results ?ttl ?d client")
    have run: "process_batch_recommendations eng ids k redis_client = (outcome, Some client')"
      by (simp add: process_batch_recommendations_def batch Some loop)
    then have "outcome = Inr ()"
      using assms(1) by simp
    then have finished: "store_results ?ttl ?d client = (Inr (), client')"
      using loop by simp
    have "distinct (map fst ?d)"
      by (rule fold_collect_keys) simp
    then have "entries client' (cache_key c)
               = (case map_of ?d c of Some r \<Rightarrow> Some (?ttl, r) | None \<Rightarrow> entries client (cache_key c))"
      by (rule store_results_written [OF finished])
    then have "entries client' (''batch_recommendations:'' @ c) = Some (?ttl, ?h c)"
      using assms(2) by (simp add: fold_collect_map_of cache_key_def)
    then show ?thesis
      using ttl by (simp add: run)
  qed
qed

theorem batch_results_cached_witness:
  "fst (process_batch_recommendations example_engine [''TechFlow AI''] 1 (Some empty_cache)) = Inr ()
   \<and> ''TechFlow AI'' \<in> set [''TechFlow AI'']
   \<and> config example_engine = Config no_environ
   \<and> cached (snd (process_batch_recommendations example_engine [''TechFlow AI''] 1 (Some empty_cache)))
        (''batch_recommendations:'' @ ''TechFlow AI'')
     = Some (3600, [example_recommendation ''TechFlow AI'' ''GreenStart Solutions''])"
proof -
  have completes:
    "fst (process_batch_recommendations example_engine [''TechFlow AI''] 1 (Some empty_cache)) = Inr ()"
    by (simp add: process_batch_recommendations_def example_single_batch example_ttl setex_def
        empty_cache_def)
  have mem: "''TechFlow AI'' \<in> set [''TechFlow AI'']"
    by simp
  have run: "get_recommendations example_engine ''TechFlow AI'' 1 None True
             = Inr [example_recommendation ''TechFlow AI'' ''GreenStart Solutions'']"
    by (subst example_run) (simp_all add: mock_companies_def slice_to_def)
  have cfg: "config example_engine = Config no_environ"
    by (simp add: example_engine_def)
  obtain client' where all:
    "snd (process_batch_recommendations example_engine [''TechFlow AI''] 1 (Some empty_cache))
       = Some client'
     \<and> entries client' (''batch_recommendations:'' @ ''TechFlow AI'')
         = Some (cache_ttl_seconds (config example_engine),
                 case get_recommendations example_engine ''TechFlow AI'' 1 None True of
                   Inr rs \<Rightarrow> rs | Inl e \<Rightarrow> [])
     \<and> cache_ttl_seconds (Config no_environ) = 3600"
    using batch_results_cached [OF completes mem] ..
  then have "cached (snd (process_batch_recommendations example_engine [''TechFlow AI''] 1
                            (Some empty_cache)))
               (''batch_recommendations:'' @ ''TechFlow AI'')
             = Some (3600, [example_recommendation ''TechFlow AI'' ''GreenStart Solutions''])"
    by (simp add: cached_def run cfg)
  then show ?thesis
    using completes mem cfg by simp
qed

end
